theory Spec2Isabelle
  imports Main
begin

section \<open>Text\<close>

text \<open>
  Python's \<^verbatim>\<open>str\<close> of an integer, and the zero padding of \<^verbatim>\<open>strftime\<close> and
  \<^verbatim>\<open>isoformat\<close>.
\<close>

definition digit_char :: "nat \<Rightarrow> char" where
  "digit_char n = ''0123456789'' ! n"

fun str_nat :: "nat \<Rightarrow> string" where
  "str_nat n = (if n < 10 then [digit_char n] else str_nat (n div 10) @ [digit_char (n mod 10)])"

declare str_nat.simps [simp del]

definition str_int :: "int \<Rightarrow> string" where
  "str_int n = (if n < 0 then ''-'' @ str_nat (nat (- n)) else str_nat (nat n))"

definition zero_pad :: "nat \<Rightarrow> int \<Rightarrow> string" where
  "zero_pad w n = (let s = str_nat (nat n) in replicate (w - length s) CHR ''0'' @ s)"

text \<open>
  Text is modelled as ASCII. The white space of \<^verbatim>\<open>\s\<close> and of \<^verbatim>\<open>int\<close> is then the blank, the
  characters 9 to 13 and the separators 28 to 31; the digits of \<^verbatim>\<open>\d\<close> are \<^verbatim>\<open>0\<close> to \<^verbatim>\<open>9\<close>.
\<close>

definition is_space :: "char \<Rightarrow> bool" where
  "is_space c =
     (c \<in> set [CHR '' '', CHR 0x09, CHR 0x0A, CHR 0x0B, CHR 0x0C, CHR 0x0D,
                CHR 0x1C, CHR 0x1D, CHR 0x1E, CHR 0x1F])"

text \<open>\<^verbatim>\<open>int(s)\<close> on the text a directive matched: decimal digits, after optional white space.\<close>

definition int_of_str :: "string \<Rightarrow> int" where
  "int_of_str s = foldl (\<lambda>a c. 10 * a + (int (of_char c) - 48)) 0 (dropWhile is_space s)"

section \<open>Calendar dates\<close>

text \<open>
  The reminder engine of \<^verbatim>\<open>email_reminder_system.py\<close> only ever uses the date part of a
  parsed \<^verbatim>\<open>datetime\<close> (\<^verbatim>\<open>start_date.date()\<close>), subtracts a \<^verbatim>\<open>timedelta(days=n)\<close> from it,
  and compares dates. A \<^verbatim>\<open>date\<close> is therefore modelled by its proleptic Gregorian ordinal
  (\<^verbatim>\<open>date.toordinal()\<close>: 0001-01-01 is day 1, 9999-12-31 is day 3652059), on which
  subtraction of days, comparison and sorting are those of the integers. A \<^verbatim>\<open>datetime\<close>
  keeps its civil fields, as Python's does.
\<close>

type_synonym date = int

record datetime =
  year :: int
  month :: int
  day :: int
  hour :: int
  minute :: int
  second :: int

text \<open>The calendar arithmetic of Python's \<^verbatim>\<open>datetime\<close> module.\<close>

definition is_leap :: "int \<Rightarrow> bool" where
  "is_leap y = (y mod 4 = 0 \<and> (y mod 100 \<noteq> 0 \<or> y mod 400 = 0))"

definition days_before_year :: "int \<Rightarrow> int" where
  "days_before_year y = (let y1 = y - 1 in y1 * 365 + y1 div 4 - y1 div 100 + y1 div 400)"

definition days_in_month :: "int \<Rightarrow> int \<Rightarrow> int" where
  "days_in_month y m =
     (if m = 2 then (if is_leap y then 29 else 28)
      else if m = 4 \<or> m = 6 \<or> m = 9 \<or> m = 11 then 30
      else 31)"

definition days_before_month :: "int \<Rightarrow> int \<Rightarrow> int" where
  "days_before_month y m =
     (if m = 1 then 0 else if m = 2 then 31 else if m = 3 then 59 else if m = 4 then 90
      else if m = 5 then 120 else if m = 6 then 151 else if m = 7 then 181
      else if m = 8 then 212 else if m = 9 then 243 else if m = 10 then 273
      else if m = 11 then 304 else 334)
     + (if m > 2 \<and> is_leap y then 1 else 0)"

definition ymd2ord :: "int \<Rightarrow> int \<Rightarrow> int \<Rightarrow> date" where
  "ymd2ord y m d = days_before_year y + days_before_month y m + d"

definition date_of :: "datetime \<Rightarrow> date" where
  "date_of dt = ymd2ord (year dt) (month dt) (day dt)"

text \<open>\<^verbatim>\<open>datetime(y, m, d)\<close>: the given day at midnight.\<close>

definition datetime_ymd :: "int \<Rightarrow> int \<Rightarrow> int \<Rightarrow> datetime" where
  "datetime_ymd y m d = \<lparr> year = y, month = m, day = d, hour = 0, minute = 0, second = 0 \<rparr>"

definition MAXORDINAL :: int where
  "MAXORDINAL = 3652059"

text \<open>
  The exceptions that the modelled code can raise. An \<^verbatim>\<open>OverflowError\<close> carries its
  message, which the row's \<^verbatim>\<open>except\<close> clause writes to the log.
\<close>

datatype error = OverflowError string | ValueError | AttributeError | TypeError

text \<open>
  \<^verbatim>\<open>some_date - timedelta(days=n)\<close>: building the \<^verbatim>\<open>timedelta\<close> raises \<^verbatim>\<open>OverflowError\<close> when
  \<open>\<bar>n\<bar> > 999999999\<close>, and the subtraction raises it when the result leaves
  \<^verbatim>\<open>date.min .. date.max\<close>.
\<close>

definition date_minus_days :: "date \<Rightarrow> int \<Rightarrow> error + date" where
  "date_minus_days d n =
     (if \<bar>n\<bar> > 999999999 then
        Inl (OverflowError (''days='' @ str_int n @ ''; must have magnitude <= 999999999''))
      else if d - n < 1 \<or> d - n > MAXORDINAL then Inl (OverflowError ''date value out of range'')
      else Inr (d - n))"

section \<open>Configuration\<close>

text \<open>
  The keys of \<^verbatim>\<open>email_config.json\<close> that the modelled functions read.
  \<^verbatim>\<open>start_date_column\<close> and \<^verbatim>\<open>end_date_column\<close> are
  \<^verbatim>\<open>config['date_columns']['start_date']\<close> and \<^verbatim>\<open>config['date_columns']['end_date']\<close>.
\<close>

record config =
  sender_email :: string
  recipients :: "string list"
  excel_file :: string
  start_date_column :: string
  end_date_column :: string
  reminder_days :: "int list"

text \<open>The template that \<^verbatim>\<open>load_config\<close> writes when no configuration file exists.\<close>

definition default_config :: config where
  "default_config =
     \<lparr> sender_email = ''your_email@outlook.com'',
       recipients = [''recipient1@example.com'', ''recipient2@example.com''],
       excel_file = ''data/KCDS, ISPD, DASH, NLP schedules.xlsx'',
       start_date_column = ''Start Date'',
       end_date_column = ''End Date'',
       reminder_days = [14, 7, 2, 1, -14] \<rparr>"

section \<open>Enumerating the upcoming reminder dates\<close>

text \<open>
  The loop of \<^verbatim>\<open>get_reminder_dates\<close> over \<^verbatim>\<open>config['reminder_days']\<close>, with the list
  \<^verbatim>\<open>reminder_dates\<close> as accumulator. \<open>sd\<close> is \<^verbatim>\<open>start_date.date()\<close>, \<open>ed\<close> is
  \<^verbatim>\<open>end_date.date()\<close> when \<^verbatim>\<open>end_date\<close> is not \<^verbatim>\<open>None\<close>. An \<^verbatim>\<open>OverflowError\<close> of the date
  arithmetic leaves the loop at once. The clock is read once: \<open>today\<close> is
  \<^verbatim>\<open>datetime.now().date()\<close>.
\<close>

fun collect_reminder_dates ::
  "date \<Rightarrow> date \<Rightarrow> date option \<Rightarrow> int list \<Rightarrow> date list \<Rightarrow> error + date list" where
  "collect_reminder_dates today sd ed [] reminder_dates = Inr reminder_dates"
| "collect_reminder_dates today sd ed (days # rest) reminder_dates =
     (if days > 0 then
        (case date_minus_days sd days of
           Inl err \<Rightarrow> Inl err
         | Inr reminder_date \<Rightarrow>
             collect_reminder_dates today sd ed rest
               (if reminder_date \<ge> today then reminder_dates @ [reminder_date]
                else reminder_dates))
      else if days < 0 then
        (case ed of
           None \<Rightarrow> collect_reminder_dates today sd ed rest reminder_dates
         | Some e \<Rightarrow>
             (case date_minus_days e days of
                Inl err \<Rightarrow> Inl err
              | Inr reminder_date \<Rightarrow>
                  collect_reminder_dates today sd ed rest
                    (if reminder_date \<ge> today then reminder_dates @ [reminder_date]
                     else reminder_dates)))
      else collect_reminder_dates today sd ed rest reminder_dates)"

definition get_reminder_dates ::
  "config \<Rightarrow> date \<Rightarrow> datetime option \<Rightarrow> datetime option \<Rightarrow> error + date list" where
  "get_reminder_dates cfg today start_date end_date =
     (case start_date of
        None \<Rightarrow> Inr []
      | Some s \<Rightarrow>
          (case collect_reminder_dates today (date_of s) (map_option date_of end_date)
                  (reminder_days cfg) [] of
             Inl err \<Rightarrow> Inl err
           | Inr reminder_dates \<Rightarrow> Inr (sort reminder_dates)))"

section \<open>The firing decision\<close>

text \<open>
  The \<^verbatim>\<open>if\<close>/\<^verbatim>\<open>elif\<close> chain of \<^verbatim>\<open>check_and_send_reminders\<close> that determines
  \<^verbatim>\<open>reminder_type\<close>; \<open>None\<close> is its final \<^verbatim>\<open>else: continue\<close>.
\<close>

definition reminder_type_of :: "date \<Rightarrow> datetime \<Rightarrow> datetime option \<Rightarrow> string option" where
  "reminder_type_of today s end_date =
     (let days_diff = date_of s - today in
      if days_diff = 14 then Some ''2_weeks_before''
      else if days_diff = 7 then Some ''1_week_before''
      else if days_diff = 2 then Some ''2_days_before''
      else if days_diff = 1 then Some ''1_day_before''
      else (case end_date of
              None \<Rightarrow> None
            | Some e \<Rightarrow> if today - date_of e = 14 then Some ''2_weeks_after'' else None))"

text \<open>
  What \<^verbatim>\<open>check_and_send_reminders\<close> decides for one row whose start date parsed to \<open>s\<close>:
  the reminder dates are enumerated, and only when \<open>today\<close> is among them is a
  reminder type looked for. \<open>Inl\<close> is an exception raised on the way (the row's
  \<^verbatim>\<open>except\<close> clause receives it), \<open>Inr None\<close> is "nothing to send today".
\<close>

definition due_reminder ::
  "config \<Rightarrow> date \<Rightarrow> datetime \<Rightarrow> datetime option \<Rightarrow> error + string option" where
  "due_reminder cfg today s end_date =
     (case get_reminder_dates cfg today (Some s) end_date of
        Inl err \<Rightarrow> Inl err
      | Inr reminder_dates \<Rightarrow>
          Inr (if today \<in> set reminder_dates then reminder_type_of today s end_date
               else None))"

section \<open>Formatting dates\<close>

text \<open>
  \<^verbatim>\<open>dt.strftime('%Y-%m-%d')\<close>, \<^verbatim>\<open>dt.strftime('%Y%m%d')\<close>, \<^verbatim>\<open>dt.strftime('%Y%m%dT%H%M%SZ')\<close>
  and \<^verbatim>\<open>str(dt)\<close> (\<^verbatim>\<open>isoformat\<close> with a blank as separator, for a \<^verbatim>\<open>datetime\<close> without
  microseconds and time zone). The year is written with four digits, as the library
  documents \<^verbatim>\<open>%Y\<close>.
\<close>

definition strftime_Y_m_d :: "datetime \<Rightarrow> string" where
  "strftime_Y_m_d dt = zero_pad 4 (year dt) @ ''-'' @ zero_pad 2 (month dt) @ ''-'' @ zero_pad 2 (day dt)"

definition strftime_Ymd :: "datetime \<Rightarrow> string" where
  "strftime_Ymd dt = zero_pad 4 (year dt) @ zero_pad 2 (month dt) @ zero_pad 2 (day dt)"

definition strftime_YmdTHMSZ :: "datetime \<Rightarrow> string" where
  "strftime_YmdTHMSZ dt =
     strftime_Ymd dt @ ''T'' @ zero_pad 2 (hour dt) @ zero_pad 2 (minute dt)
       @ zero_pad 2 (second dt) @ ''Z''"

definition str_datetime :: "datetime \<Rightarrow> string" where
  "str_datetime dt =
     strftime_Y_m_d dt @ '' '' @ zero_pad 2 (hour dt) @ '':'' @ zero_pad 2 (minute dt)
       @ '':'' @ zero_pad 2 (second dt)"

section \<open>Spreadsheet rows\<close>

text \<open>
  A row of the schedule is a pandas \<^verbatim>\<open>Series\<close>: a dictionary from column names to cell
  values. A cell is Python's \<^verbatim>\<open>None\<close> (what \<^verbatim>\<open>row.get\<close> returns for a column the sheet
  does not have), the missing value \<^verbatim>\<open>NaN\<close> of an empty cell, a text, or a time stamp
  (what a date-formatted spreadsheet cell is read as). The dictionary
  \<^verbatim>\<open>event_data\<close> is of the same shape.
\<close>

datatype cell = PyNone | NaN | Text string | Stamp datetime

type_synonym row = "string \<rightharpoonup> cell"

definition dict_get :: "row \<Rightarrow> string \<Rightarrow> cell \<Rightarrow> cell" where
  "dict_get r k dflt = (case r k of None \<Rightarrow> dflt | Some v \<Rightarrow> v)"

definition isna :: "cell \<Rightarrow> bool" where
  "isna c = (c = PyNone \<or> c = NaN)"

definition str_cell :: "cell \<Rightarrow> string" where
  "str_cell c =
     (case c of
        PyNone \<Rightarrow> ''None''
      | NaN \<Rightarrow> ''nan''
      | Text s \<Rightarrow> s
      | Stamp dt \<Rightarrow> str_datetime dt)"

section \<open>Parsing dates\<close>

text \<open>
  \<^verbatim>\<open>datetime.strptime(data_string, format)\<close> for the directives that the formats of this
  program use. The library turns the format into a regular expression: a directive
  becomes a group of alternatives, tried in the order written and each a sequence of
  character classes; white space in the format becomes \<^verbatim>\<open>\s+\<close>; any other character
  stands for itself. \<open>directive_regex\<close> lists the alternatives of a directive
  (\<^verbatim>\<open>%d\<close> is \<^verbatim>\<open>3[0-1]|[1-2]\d|0[1-9]|[1-9]| [1-9]\<close>, and so on); a directive that is
  not listed has none, so that it never matches.
\<close>

definition directive_regex :: "char \<Rightarrow> string list list" where
  "directive_regex k =
     (if k = CHR ''d'' then
        [[''3'', ''01''], [''12'', ''0123456789''], [''0'', ''123456789''], [''123456789''],
         ['' '', ''123456789'']]
      else if k = CHR ''H'' then [[''2'', ''0123''], [''01'', ''0123456789''], [''0123456789'']]
      else if k = CHR ''m'' then [[''1'', ''012''], [''0'', ''123456789''], [''123456789'']]
      else if k = CHR ''M'' then [[''012345'', ''0123456789''], [''0123456789'']]
      else if k = CHR ''S'' then [[''6'', ''01''], [''012345'', ''0123456789''], [''0123456789'']]
      else if k = CHR ''Y'' then
        [[''0123456789'', ''0123456789'', ''0123456789'', ''0123456789'']]
      else [])"

fun match_classes :: "string list \<Rightarrow> string \<Rightarrow> (string \<times> string) option" where
  "match_classes [] s = Some ([], s)"
| "match_classes (cls # rest) [] = None"
| "match_classes (cls # rest) (c # s) =
     (if c \<in> set cls then
        (case match_classes rest s of
           None \<Rightarrow> None
         | Some (m, s') \<Rightarrow> Some (c # m, s'))
      else None)"

text \<open>
  \<open>regex_match format s found\<close> matches a prefix of \<open>s\<close> as \<^verbatim>\<open>re.match\<close> does, with
  backtracking over the alternatives of each directive, and returns the text of every
  directive with the unmatched rest of \<open>s\<close>. White space is taken greedily: in the
  formats of this program it is followed by \<^verbatim>\<open>%H\<close>, whose alternatives start with a
  digit, so giving some of it back could not help a later match.
\<close>

fun regex_match ::
  "string \<Rightarrow> string \<Rightarrow> (char \<times> string) list \<Rightarrow> ((char \<times> string) list \<times> string) option"
and match_alternatives ::
  "char \<Rightarrow> string list list \<Rightarrow> string \<Rightarrow> string \<Rightarrow> (char \<times> string) list
     \<Rightarrow> ((char \<times> string) list \<times> string) option"
where
  "regex_match [] s found = Some (found, s)"
| "regex_match [c] s found =
     (if c = CHR ''%'' then None
      else if is_space c then
        (if s \<noteq> [] \<and> is_space (hd s) then Some (found, dropWhile is_space s) else None)
      else (case s of [] \<Rightarrow> None | x # s' \<Rightarrow> if x = c then Some (found, s') else None))"
| "regex_match (c # k # fmt) s found =
     (if c = CHR ''%'' then match_alternatives k (directive_regex k) fmt s found
      else if is_space c then
        (if s \<noteq> [] \<and> is_space (hd s) then regex_match (k # fmt) (dropWhile is_space s) found
         else None)
      else (case s of
              [] \<Rightarrow> None
            | x # s' \<Rightarrow> if x = c then regex_match (k # fmt) s' found else None))"
| "match_alternatives k [] fmt s found = None"
| "match_alternatives k (alt # alts) fmt s found =
     (case match_classes alt s of
        None \<Rightarrow> match_alternatives k alts fmt s found
      | Some (m, s') \<Rightarrow>
          (case regex_match fmt s' (found @ [(k, m)]) of
             None \<Rightarrow> match_alternatives k alts fmt s found
           | Some r \<Rightarrow> Some r))"

text \<open>
  The value of a directive in the match, with the library's default for a directive the
  format does not have.
\<close>

definition found_int :: "(char \<times> string) list \<Rightarrow> char \<Rightarrow> int \<Rightarrow> int" where
  "found_int found k dflt = (case map_of found k of None \<Rightarrow> dflt | Some s \<Rightarrow> int_of_str s)"

text \<open>
  \<^verbatim>\<open>strptime\<close> raises \<^verbatim>\<open>ValueError\<close> when the format does not match, when unconverted
  data remains after the match, and when the fields are not a date and time that
  \<^verbatim>\<open>datetime\<close> accepts (year 0, a day the month does not have, second 60 or 61).
\<close>

definition strptime :: "string \<Rightarrow> string \<Rightarrow> error + datetime" where
  "strptime data_string format =
     (case regex_match format data_string [] of
        None \<Rightarrow> Inl ValueError
      | Some (found, rest) \<Rightarrow>
          if rest \<noteq> [] then Inl ValueError
          else
            (let y = found_int found CHR ''Y'' 1900;
                 m = found_int found CHR ''m'' 1;
                 d = found_int found CHR ''d'' 1;
                 H = found_int found CHR ''H'' 0;
                 M = found_int found CHR ''M'' 0;
                 S = found_int found CHR ''S'' 0
             in if y < 1 \<or> d > days_in_month y m \<or> S > 59 then Inl ValueError
                else Inr \<lparr> year = y, month = m, day = d, hour = H, minute = M, second = S \<rparr>))"

text \<open>The list \<^verbatim>\<open>date_formats\<close> of \<^verbatim>\<open>parse_date\<close>, in the order written.\<close>

definition date_formats :: "string list" where
  "date_formats =
     [''%Y-%m-%d'', ''%m/%d/%Y'', ''%d/%m/%Y'', ''%Y-%m-%d %H:%M:%S'', ''%m/%d/%Y %H:%M:%S'']"

text \<open>
  The \<^verbatim>\<open>for fmt in date_formats\<close> loop: the first format that \<^verbatim>\<open>strptime\<close> accepts returns,
  a \<^verbatim>\<open>ValueError\<close> moves on to the next format (\<open>strptime\<close> raises nothing else).
\<close>

fun try_formats :: "string \<Rightarrow> string list \<Rightarrow> datetime option" where
  "try_formats s [] = None"
| "try_formats s (fmt # fmts) =
     (case strptime s fmt of
        Inr dt \<Rightarrow> Some dt
      | Inl err \<Rightarrow> try_formats s fmts)"

datatype level = INFO | WARNING | ERROR

type_synonym log_entry = "level \<times> string"

text \<open>
  What the program cannot compute by itself: \<^verbatim>\<open>pd.to_datetime\<close>, the fallback of
  \<^verbatim>\<open>parse_date\<close> (\<open>Inl\<close> when it raises), and the SMTP session of \<^verbatim>\<open>send_email\<close>, which
  either completes (\<open>None\<close>) or raises an exception with the given text.
\<close>

record email =
  msg_from :: string
  msg_to :: string
  msg_subject :: string
  msg_body :: string
  envelope_to :: "string list"

record extern =
  to_datetime :: "cell \<Rightarrow> error + datetime"
  smtp_session :: "email \<Rightarrow> string option"

text \<open>
  \<^verbatim>\<open>parse_date\<close>, with the log lines it writes. A missing value returns \<^verbatim>\<open>None\<close> at once
  and logs nothing; the warning is logged only when every format and the fallback have
  failed (the bare \<^verbatim>\<open>except\<close> catches whatever the fallback raises).
\<close>

definition parse_date :: "extern \<Rightarrow> cell \<Rightarrow> datetime option \<times> log_entry list" where
  "parse_date ext date_str =
     (if isna date_str then (None, [])
      else
        (case try_formats (str_cell date_str) date_formats of
           Some dt \<Rightarrow> (Some dt, [])
         | None \<Rightarrow>
             (case to_datetime ext date_str of
                Inr dt \<Rightarrow> (Some dt, [])
              | Inl err \<Rightarrow>
                  (None, [(WARNING, ''Could not parse date: '' @ str_cell date_str)]))))"

section \<open>Composing and sending a reminder\<close>

definition nl :: string where
  "nl = [CHR 0x0A]"

text \<open>
  The six templates of \<^verbatim>\<open>create_email_content\<close> differ in one sentence only; \<open>email_text\<close>
  is the text they share, from the line break after the opening quotes to the one
  after the end date.
\<close>

definition email_text :: "string \<Rightarrow> string \<Rightarrow> string \<Rightarrow> string \<Rightarrow> string \<Rightarrow> string" where
  "email_text sentence event_name program start_date end_date =
     nl @ ''Dear Team,'' @ nl @ nl @ sentence @ nl @ nl @ ''Course Details:'' @ nl
       @ ''- Course: '' @ event_name @ nl
       @ ''- Program: '' @ program @ nl
       @ ''- Start Date: '' @ start_date @ nl
       @ ''- End Date: '' @ end_date @ nl"

definition create_email_content :: "row \<Rightarrow> string \<Rightarrow> string \<times> string" where
  "create_email_content event_data reminder_type =
     (let start_date = str_cell (dict_get event_data ''start_date'' (Text ''N/A''));
          end_date = str_cell (dict_get event_data ''end_date'' (Text ''N/A''));
          event_name = str_cell (dict_get event_data ''event_name'' (Text ''Event''));
          program = str_cell (dict_get event_data ''program'' (Text ''N/A''));
          subject = ''Course Reminder: '' @ event_name;
          sentence =
            (if reminder_type = ''2_weeks_before'' then
               ''This is a reminder that '' @ event_name @ '' is scheduled to start in 2 weeks.''
             else if reminder_type = ''1_week_before'' then
               ''This is a reminder that '' @ event_name @ '' is scheduled to start in 1 week.''
             else if reminder_type = ''2_days_before'' then
               ''This is a reminder that '' @ event_name @ '' is starting in 2 days.''
             else if reminder_type = ''1_day_before'' then
               ''This is a reminder that '' @ event_name @ '' is starting tomorrow.''
             else if reminder_type = ''2_weeks_after'' then
               ''This is a follow-up reminder for '' @ event_name @ '' which ended 2 weeks ago.''
             else ''This is a reminder about '' @ event_name @ ''.'')
      in (subject, email_text sentence event_name program start_date end_date))"

text \<open>
  The observable state: the lines written to the log and the messages handed over to
  the mail server, oldest first.
\<close>

record world =
  logged :: "log_entry list"
  sent_mail :: "email list"

fun join :: "string \<Rightarrow> string list \<Rightarrow> string" where
  "join sep [] = []"
| "join sep [x] = x"
| "join sep (x # y # ys) = x @ sep @ join sep (y # ys)"

text \<open>
  \<^verbatim>\<open>send_email(subject, content)\<close>, as \<^verbatim>\<open>check_and_send_reminders\<close> calls it: the
  recipients are those of the configuration, and one message goes to all of them. Any
  exception of the SMTP session is caught, logged, and turned into \<^verbatim>\<open>False\<close>.
\<close>

definition send_email :: "extern \<Rightarrow> config \<Rightarrow> string \<Rightarrow> string \<Rightarrow> world \<Rightarrow> bool \<times> world" where
  "send_email ext cfg subject content w =
     (let msg = \<lparr> msg_from = sender_email cfg,
                  msg_to = join '', '' (recipients cfg),
                  msg_subject = subject,
                  msg_body = content,
                  envelope_to = recipients cfg \<rparr>
      in case smtp_session ext msg of
           None \<Rightarrow>
             (True, w\<lparr> sent_mail := sent_mail w @ [msg],
                        logged := logged w @
                          [(INFO, ''Email sent successfully to ''
                              @ str_nat (length (recipients cfg)) @ '' recipients'')] \<rparr>)
         | Some e \<Rightarrow>
             (False, w\<lparr> logged := logged w @ [(ERROR, ''Failed to send email: '' @ e)] \<rparr>))"

text \<open>The dictionary \<^verbatim>\<open>event_data\<close> that \<^verbatim>\<open>check_and_send_reminders\<close> builds for a due row.\<close>

definition make_event_data :: "row \<Rightarrow> datetime \<Rightarrow> datetime option \<Rightarrow> row" where
  "make_event_data r s end_date =
     map_of
       [(''event_name'',
           dict_get r ''Course Name'' (dict_get r ''Event Name'' (dict_get r ''Name'' (Text ''Event'')))),
        (''program'', dict_get r ''Program Name'' (Text ''N/A'')),
        (''start_date'', Text (strftime_Y_m_d s)),
        (''end_date'',
           (case end_date of None \<Rightarrow> Text ''N/A'' | Some e \<Rightarrow> Text (strftime_Y_m_d e)))]"

text \<open>
  \<^verbatim>\<open>str(e)\<close> for the exception that reaches the \<^verbatim>\<open>except\<close> clause of a row; in the model
  that is an \<^verbatim>\<open>OverflowError\<close> of the date arithmetic, and the text of the other
  exceptions is not modelled.
\<close>

definition str_error :: "error \<Rightarrow> string" where
  "str_error e = (case e of OverflowError msg \<Rightarrow> msg | _ \<Rightarrow> [])"

section \<open>The daily check\<close>

text \<open>
  The body of the \<^verbatim>\<open>for\<close> loop of \<^verbatim>\<open>check_and_send_reminders\<close> on one row, with its
  \<^verbatim>\<open>try\<close>/\<^verbatim>\<open>except\<close>. The state is the world and the counter \<^verbatim>\<open>sent_count\<close>. Three
  branches leave the row without sending: no start date (\<^verbatim>\<open>continue\<close>), an exception
  (logged by the \<^verbatim>\<open>except\<close> clause), and no reminder due today.
\<close>

definition process_row :: "extern \<Rightarrow> config \<Rightarrow> date \<Rightarrow> row \<Rightarrow> world \<times> nat \<Rightarrow> world \<times> nat" where
  "process_row ext cfg today r st =
     (let w = fst st; sent_count = snd st;
          start_parse = parse_date ext (dict_get r (start_date_column cfg) PyNone);
          end_parse = parse_date ext (dict_get r (end_date_column cfg) PyNone);
          start_date = fst start_parse;
          end_date = fst end_parse;
          w1 = w\<lparr> logged := logged w @ snd start_parse @ snd end_parse \<rparr>
      in case start_date of
           None \<Rightarrow> (w1, sent_count)
         | Some s \<Rightarrow>
             (case due_reminder cfg today s end_date of
                Inl err \<Rightarrow>
                  (w1\<lparr> logged := logged w1 @ [(ERROR, ''Error processing row: '' @ str_error err)] \<rparr>,
                   sent_count)
              | Inr None \<Rightarrow> (w1, sent_count)
              | Inr (Some reminder_type) \<Rightarrow>
                  (let event_data = make_event_data r s end_date;
                       mail = create_email_content event_data reminder_type;
                       sent = send_email ext cfg (fst mail) (snd mail) w1;
                       w2 = snd sent
                   in if fst sent then
                        (w2\<lparr> logged := logged w2 @
                               [(INFO, ''Sent '' @ reminder_type @ '' reminder for ''
                                   @ str_cell (dict_get event_data ''event_name'' PyNone))] \<rparr>,
                         sent_count + 1)
                      else (w2, sent_count))))"

fun process_rows :: "extern \<Rightarrow> config \<Rightarrow> date \<Rightarrow> row list \<Rightarrow> world \<times> nat \<Rightarrow> world \<times> nat" where
  "process_rows ext cfg today [] st = st"
| "process_rows ext cfg today (r # rs) st = process_rows ext cfg today rs (process_row ext cfg today r st)"

text \<open>
  \<^verbatim>\<open>check_and_send_reminders\<close> on a schedule that is loaded: every row in turn, then the
  summary line; the result is \<^verbatim>\<open>sent_count\<close>.
\<close>

definition check_and_send_reminders :: "extern \<Rightarrow> config \<Rightarrow> date \<Rightarrow> row list \<Rightarrow> world \<Rightarrow> nat \<times> world" where
  "check_and_send_reminders ext cfg today schedule_data w =
     (let st = process_rows ext cfg today schedule_data (w, 0);
          sent_count = snd st
      in (sent_count,
          (fst st)\<lparr> logged := logged (fst st) @
            [(INFO, ''Sent '' @ str_nat sent_count @ '' reminders today'')] \<rparr>))"

section \<open>Calendar invitations\<close>

text \<open>
  \<^verbatim>\<open>create_ics_file\<close> of \<^verbatim>\<open>create_calendar_invite.py\<close>. The identifier \<^verbatim>\<open>uuid.uuid4()\<close> and
  the clock \<^verbatim>\<open>datetime.now()\<close> are arguments. A date given as text is parsed with
  \<^verbatim>\<open>'%Y-%m-%d'\<close> (a \<^verbatim>\<open>ValueError\<close> leaves the function); any other value is taken as it is,
  and \<^verbatim>\<open>strftime\<close> fails on it unless it is a time stamp.
\<close>

definition ics_datetime :: "cell \<Rightarrow> error + cell" where
  "ics_datetime c =
     (case c of
        Text s \<Rightarrow> (case strptime s ''%Y-%m-%d'' of Inl err \<Rightarrow> Inl err | Inr dt \<Rightarrow> Inr (Stamp dt))
      | _ \<Rightarrow> Inr c)"

definition cell_strftime_Ymd :: "cell \<Rightarrow> error + string" where
  "cell_strftime_Ymd c = (case c of Stamp dt \<Rightarrow> Inr (strftime_Ymd dt) | _ \<Rightarrow> Inl AttributeError)"

text \<open>
  The two characters backslash and \<^verbatim>\<open>n\<close> that the synthesized description puts between
  its parts (the escaped line break of the calendar format).
\<close>

definition escaped_nl :: string where
  "escaped_nl = [CHR 0x5C, CHR ''n'']"

definition create_ics_file ::
  "cell \<Rightarrow> cell \<Rightarrow> cell \<Rightarrow> cell \<Rightarrow> string \<Rightarrow> string \<Rightarrow> datetime \<Rightarrow> error + string" where
  "create_ics_file course_name start_date end_date program description event_id now =
     (case ics_datetime start_date of
        Inl err \<Rightarrow> Inl err
      | Inr start_dt \<Rightarrow>
     (case ics_datetime end_date of
        Inl err \<Rightarrow> Inl err
      | Inr end_dt \<Rightarrow>
     (case cell_strftime_Ymd start_dt of
        Inl err \<Rightarrow> Inl err
      | Inr start_ics \<Rightarrow>
     (case cell_strftime_Ymd end_dt of
        Inl err \<Rightarrow> Inl err
      | Inr end_ics \<Rightarrow>
          Inr (join nl
            [''BEGIN:VCALENDAR'',
             ''VERSION:2.0'',
             ''PRODID:-//Course Reminder System//Course Event//EN'',
             ''BEGIN:VEVENT'',
             ''UID:'' @ event_id @ ''@course-reminder-system.com'',
             ''DTSTAMP:'' @ strftime_YmdTHMSZ now,
             ''DTSTART;VALUE=DATE:'' @ start_ics,
             ''DTEND;VALUE=DATE:'' @ end_ics,
             ''SUMMARY:'' @ str_cell course_name,
             ''DESCRIPTION:'' @
               (if description \<noteq> [] then description
                else ''Course: '' @ str_cell course_name @ escaped_nl
                   @ ''Program: '' @ str_cell program @ escaped_nl
                   @ ''Start: '' @ str_cell start_date @ escaped_nl
                   @ ''End: '' @ str_cell end_date),
             ''LOCATION:UBC'',
             ''STATUS:CONFIRMED'',
             ''TRANSP:OPAQUE'',
             ''END:VEVENT'',
             ''END:VCALENDAR''])))))"



section \<open>The specification's wording, for comparison\<close>

text \<open>
  The tie-break as the specification words it: the before-start offsets are evaluated
  in ascending offset order, then the single after-end offset, and the first offset that
  matches determines the reminder type.
\<close>

definition spec_before_offsets :: "(int \<times> string) list" where
  "spec_before_offsets =
     [(1, ''1_day_before''), (2, ''2_days_before''), (7, ''1_week_before''),
      (14, ''2_weeks_before'')]"

fun spec_first_match :: "int \<Rightarrow> (int \<times> string) list \<Rightarrow> string option" where
  "spec_first_match days_until_start [] = None"
| "spec_first_match days_until_start ((d, label) # rest) =
     (if days_until_start = d then Some label else spec_first_match days_until_start rest)"

definition spec_reminder_type :: "date \<Rightarrow> date \<Rightarrow> date option \<Rightarrow> string option" where
  "spec_reminder_type today start_day end_day =
     (case spec_first_match (start_day - today) spec_before_offsets of
        Some label \<Rightarrow> Some label
      | None \<Rightarrow>
          (case end_day of
             None \<Rightarrow> None
           | Some e \<Rightarrow> if today - e = 14 then Some ''2_weeks_after'' else None))"

text \<open>
  The format list as the specification words it: \<^verbatim>\<open>YYYY-MM-DD\<close>, \<^verbatim>\<open>MM/DD/YYYY\<close>,
  \<^verbatim>\<open>DD/MM/YYYY\<close>, and the timestamped variant of each of the three.
\<close>

definition spec_date_formats :: "string list" where
  "spec_date_formats =
     [''%Y-%m-%d'', ''%m/%d/%Y'', ''%d/%m/%Y'',
      ''%Y-%m-%d %H:%M:%S'', ''%m/%d/%Y %H:%M:%S'', ''%d/%m/%Y %H:%M:%S'']"

section \<open>A row on its own\<close>

text \<open>
  What one row writes to the log and hands to the mail server when it is processed
  alone, from an empty world: the yardstick for the isolation of rows in a batch.
\<close>

definition empty_world :: world where
  "empty_world = \<lparr> logged = [], sent_mail = [] \<rparr>"

definition row_log :: "extern \<Rightarrow> config \<Rightarrow> date \<Rightarrow> row \<Rightarrow> log_entry list" where
  "row_log ext cfg today r = logged (fst (process_row ext cfg today r (empty_world, 0)))"

definition row_mail :: "extern \<Rightarrow> config \<Rightarrow> date \<Rightarrow> row \<Rightarrow> email list" where
  "row_mail ext cfg today r = sent_mail (fst (process_row ext cfg today r (empty_world, 0)))"

section \<open>Sample data\<close>

text \<open>
  A library environment in which the fallback \<^verbatim>\<open>pd.to_datetime\<close> rejects every value and
  the mail server accepts every message, and three rows of a schedule without a
  \<^verbatim>\<open>Program Name\<close> column: a well-formed one, one with empty date cells, and one whose start
  date is not a date.
\<close>

definition sample_ext :: extern where
  "sample_ext = \<lparr> to_datetime = (\<lambda>c. Inl ValueError), smtp_session = (\<lambda>m. None) \<rparr>"

definition sample_row :: row where
  "sample_row =
     map_of [(''Course Name'', Text ''X''), (''Start Date'', Text ''2025-01-15''),
             (''End Date'', Text ''2025-01-20'')]"


definition bad_row :: row where
  "bad_row =
     map_of [(''Course Name'', Text ''Y''), (''Start Date'', Text ''soon''),
             (''End Date'', Text ''2025-01-20'')]"

section \<open>Properties of the enumeration and of the decision\<close>

lemma date_minus_days_Inr:
  "date_minus_days d n = Inr r \<Longrightarrow> r = d - n"
  by (auto simp: date_minus_days_def split: if_splits)

lemma collect_reminder_dates_set:
  "collect_reminder_dates today sd ed ds acc = Inr out \<Longrightarrow>
   set out = set acc
     \<union> {sd - d | d. d \<in> set ds \<and> 0 < d \<and> today \<le> sd - d}
     \<union> {e - d | e d. ed = Some e \<and> d \<in> set ds \<and> d < 0 \<and> today \<le> e - d}"
proof (induction ds arbitrary: acc)
  case Nil
  then show ?case by simp
next
  case (Cons a ds)
  show ?case
  proof (cases "0 < a")
    case True
    then obtain r where r: "date_minus_days sd a = Inr r"
      using Cons.prems by (auto split: sum.splits)
    then have [simp]: "r = sd - a" by (rule date_minus_days_Inr)
    from Cons.prems True r
    have "collect_reminder_dates today sd ed ds (if today \<le> r then acc @ [r] else acc) = Inr out"
      by (simp split: if_splits)
    from Cons.IH [OF this] True show ?thesis by (auto split: if_splits)
  next
    case False
    show ?thesis
    proof (cases "a < 0")
      case neg: True
      show ?thesis
      proof (cases ed)
        case None
        with Cons.prems False neg
        have "collect_reminder_dates today sd ed ds acc = Inr out" by simp
        from Cons.IH [OF this] None neg show ?thesis by auto
      next
        case (Some e)
        then obtain r where r: "date_minus_days e a = Inr r"
          using Cons.prems False neg by (auto split: sum.splits)
        then have [simp]: "r = e - a" by (rule date_minus_days_Inr)
        from Cons.prems False neg Some r
        have "collect_reminder_dates today sd ed ds (if today \<le> r then acc @ [r] else acc) = Inr out"
          by (simp split: if_splits)
        from Cons.IH [OF this] False neg Some show ?thesis by (auto split: if_splits)
      qed
    next
      case zero: False
      with Cons.prems False
      have "collect_reminder_dates today sd ed ds acc = Inr out" by simp
      from Cons.IH [OF this] False zero show ?thesis by auto
    qed
  qed
qed

lemma get_reminder_dates_set:
  assumes "get_reminder_dates cfg today (Some s) e = Inr ds"
  shows "set ds =
     {date_of s - d | d. d \<in> set (reminder_days cfg) \<and> 0 < d \<and> today \<le> date_of s - d}
     \<union> {date_of ed - d | ed d. e = Some ed \<and> d \<in> set (reminder_days cfg) \<and> d < 0
           \<and> today \<le> date_of ed - d}"
proof -
  from assms obtain out where
    out: "collect_reminder_dates today (date_of s) (map_option date_of e) (reminder_days cfg) [] = Inr out"
    and ds: "ds = sort out"
    by (auto simp: get_reminder_dates_def split: sum.splits)
  from collect_reminder_dates_set [OF out] ds show ?thesis
    by (cases e) auto
qed

lemmas calendar_defs =
  date_of_def datetime_ymd_def ymd2ord_def days_before_year_def days_before_month_def is_leap_def

lemmas engine_defs =
  due_reminder_def get_reminder_dates_def date_minus_days_def MAXORDINAL_def reminder_type_of_def






lemma collect_reminder_dates_no_end:
  "collect_reminder_dates today sd None (filter (\<lambda>d. 0 \<le> d) ds) acc
     = collect_reminder_dates today sd None ds acc"
  by (induction ds arbitrary: acc) (auto split: sum.splits)

lemma collect_reminder_dates_no_zero:
  "collect_reminder_dates today sd ed (removeAll 0 ds) acc
     = collect_reminder_dates today sd ed ds acc"
  by (induction ds arbitrary: acc) (auto split: sum.splits option.splits)

lemma reminder_type_of_no_end:
  "reminder_type_of today s None \<noteq> Some ''2_weeks_after''"
  by (simp add: reminder_type_of_def Let_def)

lemma due_reminder_type:
  "due_reminder cfg today s e = Inr (Some t) \<Longrightarrow> reminder_type_of today s e = Some t"
  by (auto simp: due_reminder_def split: sum.splits if_splits)

section \<open>Properties of a row, of a batch and of the parser\<close>

lemma process_row_alone:
  "process_row ext cfg today r (w, n) =
     (w\<lparr> logged := logged w @ row_log ext cfg today r,
         sent_mail := sent_mail w @ row_mail ext cfg today r \<rparr>,
      n + length (row_mail ext cfg today r))"
  by (simp add: process_row_def row_log_def row_mail_def empty_world_def send_email_def Let_def
      split: option.splits sum.splits)

lemma row_mail_length: "length (row_mail ext cfg today r) \<le> 1"
  by (simp add: process_row_def row_mail_def empty_world_def send_email_def Let_def
      split: option.splits sum.splits)

lemma process_rows_alone:
  "process_rows ext cfg today rs (w, n) =
     (w\<lparr> logged := logged w @ concat (map (row_log ext cfg today) rs),
         sent_mail := sent_mail w @ concat (map (row_mail ext cfg today) rs) \<rparr>,
      n + length (concat (map (row_mail ext cfg today) rs)))"
proof (induction rs arbitrary: w n)
  case Nil
  show ?case by simp
next
  case (Cons r rs)
  show ?case by (simp add: process_row_alone Cons.IH)
qed

lemma concat_length_le:
  "\<forall>x \<in> set xs. length (f x) \<le> 1 \<Longrightarrow> length (concat (map f xs)) \<le> length xs"
proof (induction xs)
  case Nil
  show ?case by simp
next
  case (Cons a xs)
  from Cons.prems have "length (f a) \<le> 1" and "\<forall>x \<in> set xs. length (f x) \<le> 1"
    by simp_all
  with Cons.IH show ?case by simp
qed

lemma reminder_type_of_spec:
  "reminder_type_of today s e = spec_reminder_type today (date_of s) (map_option date_of e)"
  by (cases e) (simp_all add: reminder_type_of_def spec_reminder_type_def spec_before_offsets_def Let_def)

lemma strptime_error: "strptime s f = Inl err \<Longrightarrow> err = ValueError"
  by (auto simp: strptime_def Let_def split: option.splits if_splits)

lemma try_formats_first:
  "try_formats s fmts = Some dt \<longleftrightarrow>
     (\<exists>i < length fmts. strptime s (fmts ! i) = Inr dt
        \<and> (\<forall>j < i. strptime s (fmts ! j) = Inl ValueError))"
proof (induction fmts)
  case Nil
  show ?case by simp
next
  case (Cons f fs)
  show ?case
  proof (cases "strptime s f")
    case (Inr dt')
    show ?thesis
    proof
      assume "try_formats s (f # fs) = Some dt"
      with Inr have "dt' = dt" by simp
      with Inr show "\<exists>i < length (f # fs). strptime s ((f # fs) ! i) = Inr dt
        \<and> (\<forall>j < i. strptime s ((f # fs) ! j) = Inl ValueError)"
        by (intro exI [of _ 0]) simp
    next
      assume "\<exists>i < length (f # fs). strptime s ((f # fs) ! i) = Inr dt
        \<and> (\<forall>j < i. strptime s ((f # fs) ! j) = Inl ValueError)"
      then obtain i where i: "i < length (f # fs)" "strptime s ((f # fs) ! i) = Inr dt"
        "\<forall>j < i. strptime s ((f # fs) ! j) = Inl ValueError" by blast
      have "i = 0"
      proof (rule ccontr)
        assume "i \<noteq> 0"
        then have "0 < i" by simp
        with i(3) have "strptime s ((f # fs) ! 0) = Inl ValueError" by blast
        with Inr show False by simp
      qed
      with i(2) Inr show "try_formats s (f # fs) = Some dt" by simp
    qed
  next
    case (Inl err)
    then have err: "strptime s f = Inl ValueError" using strptime_error by blast
    have "(\<exists>i < length (f # fs). strptime s ((f # fs) ! i) = Inr dt
        \<and> (\<forall>j < i. strptime s ((f # fs) ! j) = Inl ValueError))
      \<longleftrightarrow> (\<exists>i < length fs. strptime s (fs ! i) = Inr dt
        \<and> (\<forall>j < i. strptime s (fs ! j) = Inl ValueError))" (is "?L \<longleftrightarrow> ?R")
    proof
      assume ?L
      then obtain i where i: "i < length (f # fs)" "strptime s ((f # fs) ! i) = Inr dt"
        "\<forall>j < i. strptime s ((f # fs) ! j) = Inl ValueError" by blast
      from i(2) err obtain k where k: "i = Suc k" by (cases i) auto
      from i k have "k < length fs" "strptime s (fs ! k) = Inr dt" by auto
      moreover have "\<forall>j < k. strptime s (fs ! j) = Inl ValueError"
      proof (intro allI impI)
        fix j assume "j < k"
        then have "Suc j < i" using k by simp
        with i(3) have "strptime s ((f # fs) ! Suc j) = Inl ValueError" by blast
        then show "strptime s (fs ! j) = Inl ValueError" by simp
      qed
      ultimately show ?R by blast
    next
      assume ?R
      then obtain k where k: "k < length fs" "strptime s (fs ! k) = Inr dt"
        "\<forall>j < k. strptime s (fs ! j) = Inl ValueError" by blast
      have "\<forall>j < Suc k. strptime s ((f # fs) ! j) = Inl ValueError"
      proof (intro allI impI)
        fix j assume "j < Suc k"
        then show "strptime s ((f # fs) ! j) = Inl ValueError"
          using err k(3) by (cases j) auto
      qed
      with k(1,2) show ?L by (intro exI [of _ "Suc k"]) simp
    qed
    with Inl Cons.IH show ?thesis by simp
  qed
qed


lemma strptime_2025_01_10: "strptime ''2025-01-10'' ''%Y-%m-%d'' = Inr (datetime_ymd 2025 1 10)"
  by code_simp

lemma strptime_2025_01_12: "strptime ''2025-01-12'' ''%Y-%m-%d'' = Inr (datetime_ymd 2025 1 12)"
  by code_simp

lemma strftime_2025_01_10: "strftime_Ymd (datetime_ymd 2025 1 10) = ''20250110''"
  by code_simp

lemma strftime_2025_01_12: "strftime_Ymd (datetime_ymd 2025 1 12) = ''20250112''"
  by code_simp

lemma str_2025_01_10: "str_datetime (datetime_ymd 2025 1 10) = ''2025-01-10 00:00:00''"
  by code_simp

lemma str_2025_01_12: "str_datetime (datetime_ymd 2025 1 12) = ''2025-01-12 00:00:00''"
  by code_simp




section \<open>Claims about the reminder engine\<close>










text \<open>
  Claim C5. For a row without an end date, whatever today and the configured offsets
  are: the enumeration is the one of the configuration without its negative offsets,
  every date it lists is a start date minus a positive configured offset, and the
  reminder \<^verbatim>\<open>2_weeks_after\<close> is never due.
\<close>

theorem no_after_end_without_end_date:
  "get_reminder_dates cfg today sd None
     = get_reminder_dates (cfg\<lparr>reminder_days := filter (\<lambda>d. 0 \<le> d) (reminder_days cfg)\<rparr>) today sd None
   \<and> (get_reminder_dates cfg today (Some s) None = Inr ds \<longrightarrow>
        (\<forall>x \<in> set ds. \<exists>d \<in> set (reminder_days cfg). 0 < d \<and> x = date_of s - d))
   \<and> due_reminder cfg today s None \<noteq> Inr (Some ''2_weeks_after'')"
proof -
  have "get_reminder_dates cfg today sd None
     = get_reminder_dates (cfg\<lparr>reminder_days := filter (\<lambda>d. 0 \<le> d) (reminder_days cfg)\<rparr>) today sd None"
    by (simp add: get_reminder_dates_def collect_reminder_dates_no_end split: option.splits)
  moreover have "\<forall>x \<in> set ds. \<exists>d \<in> set (reminder_days cfg). 0 < d \<and> x = date_of s - d"
    if "get_reminder_dates cfg today (Some s) None = Inr ds"
    using get_reminder_dates_set [OF that] by auto
  moreover have "due_reminder cfg today s None \<noteq> Inr (Some ''2_weeks_after'')"
    using due_reminder_type [of cfg today s None "''2_weeks_after''"] reminder_type_of_no_end
    by blast
  ultimately show ?thesis by blast
qed

text \<open>
  The theorem at the default configuration, on 2025-01-01, for a course that starts on
  2025-01-15.
\<close>

theorem no_after_end_without_end_date_witness:
  "get_reminder_dates default_config (ymd2ord 2025 1 1) (Some (datetime_ymd 2025 1 15)) None
     = Inr [739252, 739259, 739264, 739265]
   \<and> get_reminder_dates (default_config\<lparr>reminder_days := [14, 7, 2, 1]\<rparr>) (ymd2ord 2025 1 1)
        (Some (datetime_ymd 2025 1 15)) None = Inr [739252, 739259, 739264, 739265]
   \<and> (\<exists>d \<in> set (reminder_days default_config). 0 < d \<and> 739259 = date_of (datetime_ymd 2025 1 15) - d)
   \<and> due_reminder default_config (ymd2ord 2025 1 1) (datetime_ymd 2025 1 15) None
        \<noteq> Inr (Some ''2_weeks_after'')"
proof -
  have h: "get_reminder_dates default_config (ymd2ord 2025 1 1) (Some (datetime_ymd 2025 1 15)) None
     = Inr [739252, 739259, 739264, 739265]"
    by (simp add: default_config_def calendar_defs engine_defs)
  have f: "filter (\<lambda>d. 0 \<le> d) (reminder_days default_config) = [14, 7, 2, 1]"
    by (simp add: default_config_def)
  from no_after_end_without_end_date [of default_config "ymd2ord 2025 1 1"
      "Some (datetime_ymd 2025 1 15)" "datetime_ymd 2025 1 15" "[739252, 739259, 739264, 739265]"]
    h f
  show ?thesis by simp
qed

text \<open>
  Claim C10, as the code has it. An offset 0 contributes nothing: the enumeration is
  the one of the configuration without its zeros. On the start date itself no
  before-start reminder is due, and no reminder at all unless the end date lies exactly
  14 days before today.
\<close>

theorem zero_offset_ignored:
  "get_reminder_dates cfg today sd ed
     = get_reminder_dates (cfg\<lparr>reminder_days := removeAll 0 (reminder_days cfg)\<rparr>) today sd ed
   \<and> (date_of s = today \<longrightarrow>
        due_reminder cfg today s e \<noteq> Inr (Some ''2_weeks_before'')
        \<and> due_reminder cfg today s e \<noteq> Inr (Some ''1_week_before'')
        \<and> due_reminder cfg today s e \<noteq> Inr (Some ''2_days_before'')
        \<and> due_reminder cfg today s e \<noteq> Inr (Some ''1_day_before''))
   \<and> (date_of s = today \<and> (case e of None \<Rightarrow> True | Some ee \<Rightarrow> today - date_of ee \<noteq> 14) \<longrightarrow>
        due_reminder cfg today s e \<noteq> Inr (Some t))"
proof -
  have enum: "get_reminder_dates cfg today sd ed
     = get_reminder_dates (cfg\<lparr>reminder_days := removeAll 0 (reminder_days cfg)\<rparr>) today sd ed"
    by (simp add: get_reminder_dates_def collect_reminder_dates_no_zero split: option.splits)
  have before: "reminder_type_of today s e \<noteq> Some ''2_weeks_before''
      \<and> reminder_type_of today s e \<noteq> Some ''1_week_before''
      \<and> reminder_type_of today s e \<noteq> Some ''2_days_before''
      \<and> reminder_type_of today s e \<noteq> Some ''1_day_before''" if "date_of s = today"
    using that by (simp add: reminder_type_of_def split: option.splits)
  have none: "reminder_type_of today s e = None"
    if "date_of s = today" and "case e of None \<Rightarrow> True | Some ee \<Rightarrow> today - date_of ee \<noteq> 14"
    using that by (auto simp: reminder_type_of_def split: option.splits)
  show ?thesis
    using enum before none due_reminder_type [of cfg today s e] by fastforce
qed

text \<open>
  The theorem for the offsets \<open>[0, 14, -14]\<close>, on 2025-01-15, for a course from
  2025-01-15 to 2025-01-20.
\<close>

theorem zero_offset_ignored_witness:
  "get_reminder_dates (default_config\<lparr>reminder_days := [0, 14, - 14]\<rparr>) (ymd2ord 2025 1 15)
      (Some (datetime_ymd 2025 1 15)) (Some (datetime_ymd 2025 1 20))
     = get_reminder_dates (default_config\<lparr>reminder_days := [14, - 14]\<rparr>) (ymd2ord 2025 1 15)
      (Some (datetime_ymd 2025 1 15)) (Some (datetime_ymd 2025 1 20))
   \<and> date_of (datetime_ymd 2025 1 15) = ymd2ord 2025 1 15
   \<and> ymd2ord 2025 1 15 - date_of (datetime_ymd 2025 1 20) \<noteq> 14
   \<and> due_reminder (default_config\<lparr>reminder_days := [0, 14, - 14]\<rparr>) (ymd2ord 2025 1 15)
        (datetime_ymd 2025 1 15) (Some (datetime_ymd 2025 1 20)) \<noteq> Inr (Some ''2_weeks_after'')
   \<and> due_reminder (default_config\<lparr>reminder_days := [0, 14, - 14]\<rparr>) (ymd2ord 2025 1 15)
        (datetime_ymd 2025 1 15) (Some (datetime_ymd 2025 1 20)) \<noteq> Inr (Some ''2_weeks_before'')"
proof -
  let ?cfg = "default_config\<lparr>reminder_days := [0, 14, - 14]\<rparr>"
  have h1: "date_of (datetime_ymd 2025 1 15) = ymd2ord 2025 1 15"
    by (simp add: calendar_defs)
  have h2: "ymd2ord 2025 1 15 - date_of (datetime_ymd 2025 1 20) \<noteq> 14"
    by (simp add: calendar_defs)
  have r: "removeAll 0 (reminder_days ?cfg) = [14, - 14]" by simp
  from zero_offset_ignored [of ?cfg "ymd2ord 2025 1 15" "Some (datetime_ymd 2025 1 15)"
      "Some (datetime_ymd 2025 1 20)" "datetime_ymd 2025 1 15" "Some (datetime_ymd 2025 1 20)"
      "''2_weeks_after''"] h1 h2 r
  show ?thesis by simp
qed

text \<open>
  Claim C10 as stated ("a record with start date today produces no event") fails for
  a row whose end date is before its start date: with the offsets \<open>[0, -14]\<close>, on
  2025-01-15, a row that starts that day and ended on 2025-01-01 gets the reminder
  \<^verbatim>\<open>2_weeks_after\<close>.
\<close>

theorem zero_offset_counterexample:
  "0 \<in> set (reminder_days (default_config\<lparr>reminder_days := [0, - 14]\<rparr>))
   \<and> date_of (datetime_ymd 2025 1 15) = ymd2ord 2025 1 15
   \<and> due_reminder (default_config\<lparr>reminder_days := [0, - 14]\<rparr>) (ymd2ord 2025 1 15)
        (datetime_ymd 2025 1 15) (Some (datetime_ymd 2025 1 1)) = Inr (Some ''2_weeks_after'')"
  by (simp add: default_config_def calendar_defs engine_defs)

section \<open>Claims about the daily check, the parser and the invitations\<close>

text \<open>
  Claim C2. Whatever the row and the day, processing the row hands at most one message
  to the mail server and raises the counter by the number of messages sent; a check
  over a schedule sends at most as many messages as the schedule has rows. The reminder
  type that the code determines (its branches read 14, 7, 2, 1, then the after-end
  test) is the one of the specification's tie-break: before-start offsets in ascending
  order, then the after-end offset, first match wins. At most one branch for a
  before-start offset can match a day, so the order among them cannot be observed;
  a day that matches a before-start offset never gets the after-end type.
\<close>

theorem at_most_one_reminder_per_row:
  "(\<exists>mails. sent_mail (fst (process_row ext cfg today r (w, n))) = sent_mail w @ mails
        \<and> length mails \<le> 1
        \<and> snd (process_row ext cfg today r (w, n)) = n + length mails)
   \<and> length (sent_mail (snd (check_and_send_reminders ext cfg today rows w)))
        \<le> length (sent_mail w) + length rows
   \<and> fst (check_and_send_reminders ext cfg today rows w) \<le> length rows
   \<and> reminder_type_of today s e = spec_reminder_type today (date_of s) (map_option date_of e)
   \<and> (date_of s - today \<in> {14, 7, 2, 1} \<longrightarrow>
        reminder_type_of today s e \<noteq> Some ''2_weeks_after'')"
proof -
  have one: "\<exists>mails. sent_mail (fst (process_row ext cfg today r (w, n))) = sent_mail w @ mails
        \<and> length mails \<le> 1
        \<and> snd (process_row ext cfg today r (w, n)) = n + length mails"
    using row_mail_length [of ext cfg today r] by (simp add: process_row_alone)
  have len: "length (concat (map (row_mail ext cfg today) rows)) \<le> length rows"
    by (rule concat_length_le) (blast intro: row_mail_length)
  have batch: "length (sent_mail (snd (check_and_send_reminders ext cfg today rows w)))
        \<le> length (sent_mail w) + length rows"
    using len by (simp add: check_and_send_reminders_def Let_def process_rows_alone)
  have count: "fst (check_and_send_reminders ext cfg today rows w) \<le> length rows"
    using len by (simp add: check_and_send_reminders_def Let_def process_rows_alone)
  have first: "reminder_type_of today s e \<noteq> Some ''2_weeks_after''"
    if "date_of s - today \<in> {14, 7, 2, 1}"
    using that by (auto simp: reminder_type_of_def)
  from one batch count reminder_type_of_spec first show ?thesis by blast
qed

text \<open>
  The theorem on 2025-01-01 for the sample row, which starts on 2025-01-15: exactly one
  message is sent.
\<close>

theorem at_most_one_reminder_per_row_witness:
  "length (sent_mail (fst (process_row sample_ext default_config (ymd2ord 2025 1 1) sample_row
       (empty_world, 0)))) = 1
   \<and> snd (process_row sample_ext default_config (ymd2ord 2025 1 1) sample_row (empty_world, 0)) = 1
   \<and> fst (check_and_send_reminders sample_ext default_config (ymd2ord 2025 1 1)
         [bad_row, sample_row] empty_world) \<le> 2
   \<and> reminder_type_of (ymd2ord 2025 1 1) (datetime_ymd 2025 1 15) None
       = spec_reminder_type (ymd2ord 2025 1 1) (date_of (datetime_ymd 2025 1 15)) None
   \<and> date_of (datetime_ymd 2025 1 15) - ymd2ord 2025 1 1 \<in> {14, 7, 2, 1}
   \<and> reminder_type_of (ymd2ord 2025 1 1) (datetime_ymd 2025 1 15) None
       \<noteq> Some ''2_weeks_after''"
proof -
  have one: "length (sent_mail (fst (process_row sample_ext default_config (ymd2ord 2025 1 1)
       sample_row (empty_world, 0)))) = 1"
    by code_simp
  have none: "sent_mail empty_world = []" by (simp add: empty_world_def)
  have diff: "date_of (datetime_ymd 2025 1 15) - ymd2ord 2025 1 1 \<in> {14, 7, 2, 1}"
    by (simp add: calendar_defs)
  from at_most_one_reminder_per_row [of sample_ext default_config "ymd2ord 2025 1 1" sample_row
      empty_world 0 "[bad_row, sample_row]" "datetime_ymd 2025 1 15" None] one none diff
  show ?thesis by auto
qed

text \<open>
  Claim C6, as the code has it. The loop over a list of formats returns the result of
  the first format that \<^verbatim>\<open>strptime\<close> accepts, all formats before it having raised
  \<^verbatim>\<open>ValueError\<close>. The formats of \<^verbatim>\<open>parse_date\<close> are \<^verbatim>\<open>YYYY-MM-DD\<close>, \<^verbatim>\<open>MM/DD/YYYY\<close>,
  \<^verbatim>\<open>DD/MM/YYYY\<close>, and then the timestamped variants of the first two only, in this order;
  so \<^verbatim>\<open>01/02/2025\<close> is the second of January, although the day-first format accepts it
  too. When every format has failed on a value that is not missing, the fallback
  decides: its result is returned, and when it raises, the result is \<^verbatim>\<open>None\<close> with one
  warning in the log. No exception leaves \<^verbatim>\<open>parse_date\<close>: its result has no error case.
\<close>

theorem parse_date_first_format_wins:
  "(try_formats s fmts = Some dt \<longleftrightarrow>
      (\<exists>i < length fmts. strptime s (fmts ! i) = Inr dt
         \<and> (\<forall>j < i. strptime s (fmts ! j) = Inl ValueError)))
   \<and> try_formats s date_formats =
       (case strptime s ''%Y-%m-%d'' of Inr d1 \<Rightarrow> Some d1 | Inl e1 \<Rightarrow>
       (case strptime s ''%m/%d/%Y'' of Inr d2 \<Rightarrow> Some d2 | Inl e2 \<Rightarrow>
       (case strptime s ''%d/%m/%Y'' of Inr d3 \<Rightarrow> Some d3 | Inl e3 \<Rightarrow>
       (case strptime s ''%Y-%m-%d %H:%M:%S'' of Inr d4 \<Rightarrow> Some d4 | Inl e4 \<Rightarrow>
       (case strptime s ''%m/%d/%Y %H:%M:%S'' of Inr d5 \<Rightarrow> Some d5 | Inl e5 \<Rightarrow> None)))))
   \<and> try_formats ''01/02/2025'' date_formats = Some (datetime_ymd 2025 1 2)
   \<and> strptime ''01/02/2025'' ''%d/%m/%Y'' = Inr (datetime_ymd 2025 2 1)
   \<and> (\<not> isna c \<and> try_formats (str_cell c) date_formats = Some dt'
        \<longrightarrow> parse_date ext c = (Some dt', []))
   \<and> (\<not> isna c \<and> try_formats (str_cell c) date_formats = None \<and> to_datetime ext c = Inr dt'
        \<longrightarrow> parse_date ext c = (Some dt', []))
   \<and> (\<not> isna c \<and> try_formats (str_cell c) date_formats = None \<and> to_datetime ext c = Inl err
        \<longrightarrow> parse_date ext c = (None, [(WARNING, ''Could not parse date: '' @ str_cell c)]))"
proof -
  have chain: "try_formats s date_formats =
       (case strptime s ''%Y-%m-%d'' of Inr d1 \<Rightarrow> Some d1 | Inl e1 \<Rightarrow>
       (case strptime s ''%m/%d/%Y'' of Inr d2 \<Rightarrow> Some d2 | Inl e2 \<Rightarrow>
       (case strptime s ''%d/%m/%Y'' of Inr d3 \<Rightarrow> Some d3 | Inl e3 \<Rightarrow>
       (case strptime s ''%Y-%m-%d %H:%M:%S'' of Inr d4 \<Rightarrow> Some d4 | Inl e4 \<Rightarrow>
       (case strptime s ''%m/%d/%Y %H:%M:%S'' of Inr d5 \<Rightarrow> Some d5 | Inl e5 \<Rightarrow> None)))))"
    by (simp add: date_formats_def split: sum.splits)
  have ex1: "try_formats ''01/02/2025'' date_formats = Some (datetime_ymd 2025 1 2)"
    by code_simp
  have ex2: "strptime ''01/02/2025'' ''%d/%m/%Y'' = Inr (datetime_ymd 2025 2 1)"
    by code_simp
  have p1: "parse_date ext c = (Some dt', [])"
    if "\<not> isna c" and "try_formats (str_cell c) date_formats = Some dt'"
    using that by (simp add: parse_date_def)
  have p2: "parse_date ext c = (Some dt', [])"
    if "\<not> isna c" and "try_formats (str_cell c) date_formats = None" and "to_datetime ext c = Inr dt'"
    using that by (simp add: parse_date_def)
  have p3: "parse_date ext c = (None, [(WARNING, ''Could not parse date: '' @ str_cell c)])"
    if "\<not> isna c" and "try_formats (str_cell c) date_formats = None" and "to_datetime ext c = Inl err"
    using that by (simp add: parse_date_def)
  from try_formats_first [of s fmts dt] chain ex1 ex2 p1 p2 p3 show ?thesis by blast
qed

text \<open>
  The theorem for the texts \<^verbatim>\<open>01/02/2025\<close> and \<^verbatim>\<open>soon\<close>, with a fallback that rejects
  everything.
\<close>

theorem parse_date_first_format_wins_witness:
  "try_formats ''01/02/2025'' date_formats = Some (datetime_ymd 2025 1 2)
   \<and> (\<exists>i < length date_formats. strptime ''01/02/2025'' (date_formats ! i) = Inr (datetime_ymd 2025 1 2))
   \<and> \<not> isna (Text ''soon'')
   \<and> try_formats (str_cell (Text ''soon'')) date_formats = None
   \<and> to_datetime sample_ext (Text ''soon'') = Inl ValueError
   \<and> parse_date sample_ext (Text ''soon'') = (None, [(WARNING, ''Could not parse date: soon'')])
   \<and> \<not> isna (Text ''01/02/2025'')
   \<and> parse_date sample_ext (Text ''01/02/2025'') = (Some (datetime_ymd 2025 1 2), [])"
proof -
  have h1: "\<not> isna (Text ''soon'')" "\<not> isna (Text ''01/02/2025'')"
    by (simp_all add: isna_def)
  have h2: "try_formats (str_cell (Text ''soon'')) date_formats = None"
    by code_simp
  have h3: "to_datetime sample_ext (Text ''soon'') = Inl ValueError"
    by (simp add: sample_ext_def)
  have h4: "try_formats (str_cell (Text ''01/02/2025'')) date_formats = Some (datetime_ymd 2025 1 2)"
    by code_simp
  have s: "str_cell (Text ''soon'') = ''soon''" by (simp add: str_cell_def)
  from parse_date_first_format_wins [of "''01/02/2025''" date_formats "datetime_ymd 2025 1 2"
      "Text ''soon''" "datetime_ymd 2025 1 2" sample_ext ValueError]
    parse_date_first_format_wins [of "''01/02/2025''" date_formats "datetime_ymd 2025 1 2"
      "Text ''01/02/2025''" "datetime_ymd 2025 1 2" sample_ext ValueError]
    h1 h2 h3 h4 s
  show ?thesis by auto
qed

text \<open>
  Claim C6 as stated gives each of the three date formats a timestamped variant. The
  code has none for \<^verbatim>\<open>DD/MM/YYYY\<close>: every format of \<^verbatim>\<open>parse_date\<close> rejects
  \<^verbatim>\<open>13/02/2025 10:30:00\<close>, which the list of the claim parses.
\<close>

theorem timestamped_day_first_counterexample:
  "try_formats ''13/02/2025 10:30:00'' date_formats = None
   \<and> try_formats ''13/02/2025 10:30:00'' spec_date_formats =
       Some \<lparr> year = 2025, month = 2, day = 13, hour = 10, minute = 30, second = 0 \<rparr>"
  by code_simp

text \<open>
  Claim C7. For a course named \<open>X\<close> from 2025-01-10 to 2025-01-12, given as text or as
  time stamps, \<^verbatim>\<open>create_ics_file\<close> returns the invitation below: \<^verbatim>\<open>DTSTART\<close> is 20250110
  and \<^verbatim>\<open>DTEND\<close> is the end date itself, 20250112; the summary is \<open>X\<close>; location, status
  and transparency are fixed; the description is the one supplied, or, when none is,
  the course, program, start and end joined by escaped line breaks.
\<close>

theorem invite_for_sample_course:
  "create_ics_file (Text X) (Text ''2025-01-10'') (Text ''2025-01-12'') program description
       event_id now =
     Inr (join nl
       [''BEGIN:VCALENDAR'',
        ''VERSION:2.0'',
        ''PRODID:-//Course Reminder System//Course Event//EN'',
        ''BEGIN:VEVENT'',
        ''UID:'' @ event_id @ ''@course-reminder-system.com'',
        ''DTSTAMP:'' @ strftime_YmdTHMSZ now,
        ''DTSTART;VALUE=DATE:20250110'',
        ''DTEND;VALUE=DATE:20250112'',
        ''SUMMARY:'' @ X,
        ''DESCRIPTION:'' @
          (if description = [] then
             ''Course: '' @ X @ escaped_nl @ ''Program: '' @ str_cell program @ escaped_nl
               @ ''Start: 2025-01-10'' @ escaped_nl @ ''End: 2025-01-12''
           else description),
        ''LOCATION:UBC'',
        ''STATUS:CONFIRMED'',
        ''TRANSP:OPAQUE'',
        ''END:VEVENT'',
        ''END:VCALENDAR''])
   \<and> create_ics_file (Text X) (Stamp (datetime_ymd 2025 1 10)) (Stamp (datetime_ymd 2025 1 12))
       program description event_id now =
     Inr (join nl
       [''BEGIN:VCALENDAR'',
        ''VERSION:2.0'',
        ''PRODID:-//Course Reminder System//Course Event//EN'',
        ''BEGIN:VEVENT'',
        ''UID:'' @ event_id @ ''@course-reminder-system.com'',
        ''DTSTAMP:'' @ strftime_YmdTHMSZ now,
        ''DTSTART;VALUE=DATE:20250110'',
        ''DTEND;VALUE=DATE:20250112'',
        ''SUMMARY:'' @ X,
        ''DESCRIPTION:'' @
          (if description = [] then
             ''Course: '' @ X @ escaped_nl @ ''Program: '' @ str_cell program @ escaped_nl
               @ ''Start: 2025-01-10 00:00:00'' @ escaped_nl @ ''End: 2025-01-12 00:00:00''
           else description),
        ''LOCATION:UBC'',
        ''STATUS:CONFIRMED'',
        ''TRANSP:OPAQUE'',
        ''END:VEVENT'',
        ''END:VCALENDAR''])"
  by (simp add: create_ics_file_def ics_datetime_def cell_strftime_Ymd_def str_cell_def
      strptime_2025_01_10 strptime_2025_01_12 strftime_2025_01_10 strftime_2025_01_12
      str_2025_01_10 str_2025_01_12 del: join.simps)

text \<open>The theorem for the course \<open>X\<close> of the program \<open>KCDS\<close>, with no description.\<close>

theorem invite_for_sample_course_witness:
  "create_ics_file (Text ''X'') (Text ''2025-01-10'') (Text ''2025-01-12'') (Text ''KCDS'') []
       ''u'' (datetime_ymd 2025 1 1) =
     Inr (join nl
       [''BEGIN:VCALENDAR'',
        ''VERSION:2.0'',
        ''PRODID:-//Course Reminder System//Course Event//EN'',
        ''BEGIN:VEVENT'',
        ''UID:u@course-reminder-system.com'',
        ''DTSTAMP:20250101T000000Z'',
        ''DTSTART;VALUE=DATE:20250110'',
        ''DTEND;VALUE=DATE:20250112'',
        ''SUMMARY:X'',
        ''DESCRIPTION:Course: X'' @ escaped_nl @ ''Program: KCDS'' @ escaped_nl
           @ ''Start: 2025-01-10'' @ escaped_nl @ ''End: 2025-01-12'',
        ''LOCATION:UBC'',
        ''STATUS:CONFIRMED'',
        ''TRANSP:OPAQUE'',
        ''END:VEVENT'',
        ''END:VCALENDAR''])"
proof -
  have stamp: "strftime_YmdTHMSZ (datetime_ymd 2025 1 1) = ''20250101T000000Z''"
    by code_simp
  from invite_for_sample_course [of "''X''" "Text ''KCDS''" "[]" "''u''" "datetime_ymd 2025 1 1"]
  show ?thesis by (simp add: stamp str_cell_def del: join.simps)
qed








end
